theory Spec2Isabelle
  imports Main
begin

section \<open>JavaScript values and the helpers of the host libraries\<close>

text \<open>
  The values that travel through the query builder of \<^verbatim>\<open>app/lib/T/sqlite.js\<close>: bound
  parameters, the arguments of \<^verbatim>\<open>where\<close>, \<^verbatim>\<open>execute\<close> and \<^verbatim>\<open>loop\<close>, and the compiled
  array. A plain object is the list of its own enumerable properties in enumeration
  order; a function value is identified by a number and has no enumerable property;
  a number is an integer. Bound values are passed on as they are, whatever their kind.
  Table names, column names, operators and order keys are strings, as the JSDoc and
  the examples in the source have them.
\<close>

datatype jsval =
    JUndefined
  | JNull
  | JBool bool
  | JNum int
  | JStr string
  | JArr "jsval list"
  | JObj "(string \<times> jsval) list"
  | JFun nat

text \<open>
  \<^verbatim>\<open>_.isObject\<close> and \<^verbatim>\<open>_.isFunction\<close> of underscore; \<^verbatim>\<open>_.isString\<close> is the test for the
  constructor \<open>JStr\<close>.
\<close>

fun u_isObject :: "jsval \<Rightarrow> bool" where
  "u_isObject (JArr _) = True"
| "u_isObject (JObj _) = True"
| "u_isObject (JFun _) = True"
| "u_isObject _ = False"

fun u_isFunction :: "jsval \<Rightarrow> bool" where
  "u_isFunction (JFun _) = True"
| "u_isFunction _ = False"

text \<open>Decimal rendering of an array index, for the keys of an array.\<close>

definition digit_char :: "nat \<Rightarrow> char" where
  "digit_char d = ''0123456789'' ! d"

fun show_nat :: "nat \<Rightarrow> string" where
  "show_nat n = (if n < 10 then [digit_char n] else show_nat (n div 10) @ [digit_char (n mod 10)])"

declare show_nat.simps [simp del]

text \<open>
  \<^verbatim>\<open>_.keys\<close> and \<^verbatim>\<open>_.values\<close> on a value that passed \<^verbatim>\<open>_.isObject\<close>: the own enumerable
  properties of an object, the indices and elements of an array, nothing for a function.
\<close>

fun u_keys :: "jsval \<Rightarrow> string list" where
  "u_keys (JObj kvs) = map fst kvs"
| "u_keys (JArr xs) = map show_nat [0 ..< length xs]"
| "u_keys _ = []"

fun u_values :: "jsval \<Rightarrow> jsval list" where
  "u_values (JObj kvs) = map snd kvs"
| "u_values (JArr xs) = xs"
| "u_values _ = []"

text \<open>\<^verbatim>\<open>Array.prototype.join\<close> on an array of strings.\<close>

fun join :: "string \<Rightarrow> string list \<Rightarrow> string" where
  "join sep [] = []"
| "join sep [x] = x"
| "join sep (x # y # ys) = x @ sep @ join sep (y # ys)"

text \<open>
  The assignment \<^verbatim>\<open>obj[k] = v\<close> on a plain object. An existing property keeps its place;
  a new one goes to the end, except that a key which is a canonical array index
  (\<^verbatim>\<open>"0"\<close>, \<^verbatim>\<open>"17"\<close>, below \<open>2^32 - 1\<close>) is enumerated before every other key, in
  ascending numeric order.
\<close>

definition is_digit :: "char \<Rightarrow> bool" where
  "is_digit c = (c \<in> set ''0123456789'')"

definition digits_value :: "string \<Rightarrow> int" where
  "digits_value s = fold (\<lambda>c n. 10 * n + (of_char c - 48)) s 0"

definition is_array_index :: "string \<Rightarrow> bool" where
  "is_array_index s =
     (s \<noteq> [] \<and> list_all is_digit s \<and> (length s = 1 \<or> hd s \<noteq> CHR ''0'')
      \<and> digits_value s < 4294967295)"

definition index_before :: "string \<Rightarrow> string \<times> 'a \<Rightarrow> bool" where
  "index_before k p = (is_array_index (fst p) \<and> digits_value (fst p) < digits_value k)"

definition js_put :: "string \<Rightarrow> 'a \<Rightarrow> (string \<times> 'a) list \<Rightarrow> (string \<times> 'a) list" where
  "js_put k v obj =
     (if k \<in> set (map fst obj) then map (\<lambda>p. if fst p = k then (k, v) else p) obj
      else if is_array_index k
        then takeWhile (index_before k) obj @ [(k, v)] @ dropWhile (index_before k) obj
      else obj @ [(k, v)])"

text \<open>\<^verbatim>\<open>_.object(list, values)\<close>: \<^verbatim>\<open>result[list[i]] = values[i]\<close> for each index in turn.\<close>

definition u_object :: "string list \<Rightarrow> 'a list \<Rightarrow> (string \<times> 'a) list" where
  "u_object list vals = fold (\<lambda>p obj. js_put (fst p) (snd p) obj) (zip list vals) []"

section \<open>The query descriptor and the builder\<close>

datatype sql_method = Select | Update | Delete | Truncate | Insert

record order_by =
  key :: string
  direction :: string

text \<open>
  \<^verbatim>\<open>this.query\<close>. The fields carry the prefix \<open>q_\<close> because the methods of the builder
  have the same names. \<^verbatim>\<open>select\<close>, \<^verbatim>\<open>update\<close>, \<^verbatim>\<open>order\<close> and \<^verbatim>\<open>insert\<close> start as \<^verbatim>\<open>null\<close>.
\<close>

record descriptor =
  q_method :: sql_method
  q_table :: string
  q_where :: "string list"
  q_whereData :: "jsval list"
  q_select :: "(string \<times> string) list option"
  q_update :: "string list option"
  q_updateData :: "jsval list"
  q_order :: "order_by option"
  q_insert :: "string list option"
  q_insertData :: "jsval list"

text \<open>
  What the builder does to the outside world, in order: calls of \<^verbatim>\<open>this.db.execute\<close>,
  lines given to \<^verbatim>\<open>Ti.API.debug\<close>, and calls of the callback of \<^verbatim>\<open>loop\<close> (the callback
  and the row it received).
\<close>

datatype event =
    DbExecute "jsval list"
  | Debug "jsval list"
  | Callback jsval jsval

record sqlite =
  query :: "descriptor option"
  trace :: "event list"

text \<open>
  A thrown exception. \<open>Error\<close> carries the message of \<^verbatim>\<open>new Error(...)\<close>; \<open>TypeError\<close>
  is what reading \<^verbatim>\<open>.join\<close> or \<^verbatim>\<open>.map\<close> of \<^verbatim>\<open>null\<close> throws.
\<close>

datatype error = Error string | TypeError

abbreviation NoActiveChain :: error where
  "NoActiveChain \<equiv> Error ''Start a query chain with .table() method''"

abbreviation InvalidArgument :: error where
  "InvalidArgument \<equiv> Error ''SQLite: last argument of SQLite.loop must be a Function''"

text \<open>
  The cursor that \<^verbatim>\<open>this.db.execute\<close> returns: \<^verbatim>\<open>fieldName(i)\<close> for \<open>i < fieldCount\<close>, and
  the rows still to come, each with its \<^verbatim>\<open>field(i)\<close> values; \<^verbatim>\<open>validRow\<close> is that a row is
  left and \<^verbatim>\<open>next()\<close> drops the first one.
\<close>

record resultset =
  fieldNames :: "string list"
  rows :: "jsval list list"

text \<open>
  What the module does not own: the flag \<^verbatim>\<open>exports.config.log\<close>, and the database
  handle, whose answer to a call (a cursor or an exception) may depend on everything
  that happened before.
\<close>

record host =
  config_log :: bool
  db_execute :: "event list \<Rightarrow> jsval list \<Rightarrow> error + resultset"

text \<open>
  The outcome of a method call: what it returned or threw, and the builder afterwards.
  The mutators return \<^verbatim>\<open>this\<close>, which is the state component.
\<close>

type_synonym 'a outcome = "(error + 'a) \<times> sqlite"

text \<open>Method chaining \<^verbatim>\<open>a.m(...)\<close>: \<open>m\<close> runs on the builder \<open>a\<close> left, unless \<open>a\<close> threw.\<close>

definition chain :: "unit outcome \<Rightarrow> (sqlite \<Rightarrow> 'a outcome) \<Rightarrow> 'a outcome" where
  "chain r m = (case fst r of Inl e \<Rightarrow> (Inl e, snd r) | Inr _ \<Rightarrow> m (snd r))"

text \<open>
  The constructor: \<^verbatim>\<open>this.query = null\<close>, and the database handle is opened. No statement
  has been sent to it yet.
\<close>

definition new_SQLite :: sqlite where
  "new_SQLite = \<lparr>query = None, trace = []\<rparr>"

definition table :: "string \<Rightarrow> sqlite \<Rightarrow> unit outcome" where
  "table name s =
     (Inr (), s\<lparr>query := Some
        \<lparr>q_method = Select, q_table = name, q_where = [], q_whereData = [],
         q_select = None, q_update = None, q_updateData = [], q_order = None,
         q_insert = None, q_insertData = []\<rparr>\<rparr>)"

text \<open>
  The arguments of \<^verbatim>\<open>select\<close>: any number of names, or one array of names, or one
  object. The equations follow the branches of the source in its order.
\<close>

datatype select_args =
    Names "string list"
  | NameArray "string list"
  | Aliases "(string \<times> string) list"

fun select_state :: "select_args \<Rightarrow> (string \<times> string) list option" where
  "select_state (Names []) = None"
| "select_state (Names (a # b # rest)) = Some (u_object (a # b # rest) (a # b # rest))"
| "select_state (NameArray names) = Some (u_object names names)"
| "select_state (Aliases obj) = Some obj"
| "select_state (Names [a]) = Some (u_object [a] [a])"

definition select :: "select_args \<Rightarrow> sqlite \<Rightarrow> unit outcome" where
  "select args s =
     (case query s of
        None \<Rightarrow> (Inl (Error ''Start a query chain with .table() method''), s)
      | Some q \<Rightarrow>
          (Inr (), s\<lparr>query := Some (q\<lparr>q_method := Select, q_select := select_state args\<rparr>)\<rparr>))"

definition update :: "(string \<times> jsval) list \<Rightarrow> sqlite \<Rightarrow> unit outcome" where
  "update obj s =
     (case query s of
        None \<Rightarrow> (Inl (Error ''Start a query chain with .table() method''), s)
      | Some q \<Rightarrow>
          (Inr (), s\<lparr>query := Some (q\<lparr>q_method := Update,
                                      q_update := Some (u_keys (JObj obj)),
                                      q_updateData := u_values (JObj obj)\<rparr>)\<rparr>))"

definition delete :: "sqlite \<Rightarrow> unit outcome" where
  "delete s =
     (case query s of
        None \<Rightarrow> (Inl (Error ''Start a query chain with .table() method''), s)
      | Some q \<Rightarrow> (Inr (), s\<lparr>query := Some (q\<lparr>q_method := Delete\<rparr>)\<rparr>))"

text \<open>
  \<^verbatim>\<open>order(key, direction)\<close>; \<open>None\<close> is an omitted direction. \<^verbatim>\<open>direction || 'ASC'\<close>
  also replaces the empty string, which is falsy.
\<close>

definition order :: "string \<Rightarrow> string option \<Rightarrow> sqlite \<Rightarrow> unit outcome" where
  "order k dir s =
     (case query s of
        None \<Rightarrow> (Inl (Error ''Start a query chain with .table() method''), s)
      | Some q \<Rightarrow>
          (Inr (), s\<lparr>query := Some (q\<lparr>q_order := Some
             \<lparr>key = k,
              direction = (case dir of None \<Rightarrow> ''ASC''
                                     | Some d \<Rightarrow> if d = [] then ''ASC'' else d)\<rparr>\<rparr>)\<rparr>))"

definition truncate :: "sqlite \<Rightarrow> unit outcome" where
  "truncate s =
     (case query s of
        None \<Rightarrow> (Inl (Error ''Start a query chain with .table() method''), s)
      | Some q \<Rightarrow> (Inr (), s\<lparr>query := Some (q\<lparr>q_method := Truncate\<rparr>)\<rparr>))"

text \<open>
  The arguments of \<^verbatim>\<open>where\<close> (alias \<^verbatim>\<open>andWhere\<close>) by their number: one value of any kind,
  a column and a value, a column, an operator and a value. \<open>WhereNone\<close> is a call with
  no argument and \<open>WhereMore\<close> one with four or more; no branch of the source takes them.
\<close>

datatype where_args =
    WhereNone
  | WhereOne jsval
  | WhereTwo string jsval
  | WhereThree string string jsval
  | WhereMore

fun where_step :: "where_args \<Rightarrow> descriptor \<Rightarrow> descriptor" where
  "where_step (WhereOne a) q =
     (if u_isObject a
        then q\<lparr>q_where := map (\<lambda>k. k @ '' = ?'') (u_keys a), q_whereData := u_values a\<rparr>
      else (case a of JStr raw \<Rightarrow> q\<lparr>q_where := q_where q @ [raw]\<rparr> | _ \<Rightarrow> q))"
| "where_step (WhereTwo c v) q =
     q\<lparr>q_where := q_where q @ [c @ '' = ?''], q_whereData := q_whereData q @ [v]\<rparr>"
| "where_step (WhereThree c opr v) q =
     q\<lparr>q_where := q_where q @ [c @ '' '' @ opr @ '' ?''], q_whereData := q_whereData q @ [v]\<rparr>"
| "where_step _ q = q"

definition andWhere :: "where_args \<Rightarrow> sqlite \<Rightarrow> unit outcome" where
  "andWhere args s =
     (case query s of
        None \<Rightarrow> (Inl (Error ''Start a query chain with .table() method''), s)
      | Some q \<Rightarrow> (Inr (), s\<lparr>query := Some (where_step args q)\<rparr>))"

definition insert_into :: "(string \<times> jsval) list \<Rightarrow> sqlite \<Rightarrow> unit outcome" where
  "insert_into obj s =
     (case query s of
        None \<Rightarrow> (Inl (Error ''Start a query chain with .table() method''), s)
      | Some q \<Rightarrow>
          (Inr (), s\<lparr>query := Some (q\<lparr>q_method := Insert,
                                      q_insert := Some (u_keys (JObj obj)),
                                      q_insertData := u_values (JObj obj)\<rparr>)\<rparr>))"

subsection \<open>Compilation\<close>

definition whereClause :: "descriptor \<Rightarrow> string" where
  "whereClause q =
     (if length (q_where q) > 0 then '' WHERE '' @ join '' AND '' (q_where q) else [])"

text \<open>The \<^verbatim>\<open>switch\<close> of \<^verbatim>\<open>getExequery\<close> on an active descriptor.\<close>

definition exequery :: "descriptor \<Rightarrow> error + jsval list" where
  "exequery q =
     (case q_method q of
        Select \<Rightarrow>
          Inr ([JStr (''SELECT '' @
                  (case q_select q of
                     None \<Rightarrow> ''*''
                   | Some sel \<Rightarrow> join '','' (map (\<lambda>(k, v). k @ '' AS '' @ v) sel)) @
                  '' FROM '' @ q_table q @
                  whereClause q @
                  (case q_order q of
                     None \<Rightarrow> []
                   | Some ob \<Rightarrow> '' ORDER BY '' @ key ob @ '' '' @ direction ob))]
               @ q_whereData q)
      | Update \<Rightarrow>
          (case q_update q of
             None \<Rightarrow> Inl TypeError
           | Some cols \<Rightarrow>
               Inr ([JStr (''UPDATE '' @ q_table q @
                       '' SET '' @ (join '' = ?, '' cols @ '' = ?'') @
                       whereClause q)]
                    @ q_updateData q
                    @ q_whereData q))
      | Delete \<Rightarrow>
          Inr ([JStr (''DELETE FROM '' @ q_table q @ whereClause q)] @ q_whereData q)
      | Truncate \<Rightarrow>
          Inr [JStr (''TRUNCATE TABLE '' @ q_table q)]
      | Insert \<Rightarrow>
          (case q_insert q of
             None \<Rightarrow> Inl TypeError
           | Some cols \<Rightarrow>
               Inr ([JStr (''INSERT INTO '' @ q_table q @
                       ''('' @ join '','' cols @ '') '' @
                       ''VALUES ('' @ join '','' (map (\<lambda>_. ''?'') cols) @ '')'')]
                    @ q_insertData q)))"

definition getExequery :: "sqlite \<Rightarrow> (jsval list) outcome" where
  "getExequery s =
     (case query s of
        None \<Rightarrow> (Inl (Error ''Start a query chain with .table() method''), s)
      | Some q \<Rightarrow> (exequery q, s))"

subsection \<open>Execution and row iteration\<close>

definition debug :: "host \<Rightarrow> jsval list \<Rightarrow> sqlite \<Rightarrow> sqlite" where
  "debug h q s =
     (if config_log h then s\<lparr>trace := trace s @ [Debug [JStr ''SQLite:'', JArr q]]\<rparr> else s)"

definition db_call :: "host \<Rightarrow> jsval list \<Rightarrow> sqlite \<Rightarrow> resultset outcome" where
  "db_call h q s = (db_execute h (trace s) q, s\<lparr>trace := trace s @ [DbExecute q]\<rparr>)"

definition execute :: "host \<Rightarrow> jsval list \<Rightarrow> sqlite \<Rightarrow> resultset outcome" where
  "execute h arguments s =
     (case query s of
        None \<Rightarrow> db_call h arguments (debug h arguments s)
      | Some _ \<Rightarrow>
          (case getExequery s of
             (Inl e, s') \<Rightarrow> (Inl e, s')
           | (Inr q, s') \<Rightarrow> db_call h q (debug h q (s'\<lparr>query := None\<rparr>))))"

text \<open>
  The object \<^verbatim>\<open>loop\<close> builds for a row: \<^verbatim>\<open>obj[fieldNames[i]] = row.field(i)\<close> for each
  column in turn. Every row of a cursor has \<open>fieldCount\<close> values.
\<close>

definition row_object :: "string list \<Rightarrow> jsval list \<Rightarrow> jsval" where
  "row_object names vals =
     JObj (fold (\<lambda>p obj. js_put (fst p) (snd p) obj) (zip names vals) [])"

text \<open>
  \<^verbatim>\<open>loop\<close>: the last argument is popped (\<^verbatim>\<open>undefined\<close> when there is none) and must be
  a function; the others go to \<^verbatim>\<open>execute\<close>. The callback is recorded with the row it gets;
  it returns normally and leaves the builder alone.
\<close>

definition loop :: "host \<Rightarrow> jsval list \<Rightarrow> sqlite \<Rightarrow> unit outcome" where
  "loop h arguments s =
     (let loopFn = (if arguments = [] then JUndefined else last arguments);
          args = butlast arguments
      in if \<not> u_isFunction loopFn
           then (Inl (Error ''SQLite: last argument of SQLite.loop must be a Function''), s)
         else (case execute h args s of
                 (Inl e, s') \<Rightarrow> (Inl e, s')
               | (Inr row, s') \<Rightarrow>
                   (Inr (), s'\<lparr>trace := trace s' @
                      map (\<lambda>vals. Callback loopFn (row_object (fieldNames row) vals))
                          (rows row)\<rparr>)))"

subsection \<open>The builders that the methods can produce\<close>

inductive reachable :: "host \<Rightarrow> sqlite \<Rightarrow> bool" for h :: host where
  r_new: "reachable h new_SQLite"
| r_table: "reachable h s \<Longrightarrow> reachable h (snd (table name s))"
| r_select: "reachable h s \<Longrightarrow> reachable h (snd (select sargs s))"
| r_update: "reachable h s \<Longrightarrow> reachable h (snd (update obj s))"
| r_delete: "reachable h s \<Longrightarrow> reachable h (snd (delete s))"
| r_order: "reachable h s \<Longrightarrow> reachable h (snd (order k dir s))"
| r_truncate: "reachable h s \<Longrightarrow> reachable h (snd (truncate s))"
| r_where: "reachable h s \<Longrightarrow> reachable h (snd (andWhere wargs s))"
| r_insert: "reachable h s \<Longrightarrow> reachable h (snd (insert_into obj s))"
| r_getExequery: "reachable h s \<Longrightarrow> reachable h (snd (getExequery s))"
| r_execute: "reachable h s \<Longrightarrow> reachable h (snd (execute h arguments s))"
| r_loop: "reachable h s \<Longrightarrow> reachable h (snd (loop h arguments s))"

text \<open>
  An update descriptor has its column list and an insert descriptor has its own: the
  two reads in \<^verbatim>\<open>getExequery\<close> that could hit \<^verbatim>\<open>null\<close> never do on a builder that the
  methods produced.
\<close>

definition compilable :: "descriptor \<Rightarrow> bool" where
  "compilable q =
     ((q_method q = Update \<longrightarrow> q_update q \<noteq> None) \<and>
      (q_method q = Insert \<longrightarrow> q_insert q \<noteq> None))"

subsection \<open>Several filters in a row\<close>

text \<open>\<^verbatim>\<open>.where(w1).where(w2)...\<close>, the calls of the list chained in order.\<close>

fun wheres :: "where_args list \<Rightarrow> sqlite \<Rightarrow> unit outcome" where
  "wheres [] s = (Inr (), s)"
| "wheres (w # ws) s = chain (andWhere w s) (wheres ws)"

text \<open>
  The three call shapes that the specification says accumulate, with the fragment and
  the bound values it gives for each: a raw string, \<open>(column, value)\<close> and
  \<open>(column, operator, value)\<close>.
\<close>

fun spec_appending :: "where_args \<Rightarrow> bool" where
  "spec_appending (WhereOne (JStr raw)) = True"
| "spec_appending (WhereTwo c v) = True"
| "spec_appending (WhereThree c opr v) = True"
| "spec_appending _ = False"

fun spec_fragment :: "where_args \<Rightarrow> string" where
  "spec_fragment (WhereOne (JStr raw)) = raw"
| "spec_fragment (WhereTwo c v) = c @ '' = ?''"
| "spec_fragment (WhereThree c opr v) = c @ '' '' @ opr @ '' ?''"
| "spec_fragment _ = []"

fun spec_bound :: "where_args \<Rightarrow> jsval list" where
  "spec_bound (WhereTwo c v) = [v]"
| "spec_bound (WhereThree c opr v) = [v]"
| "spec_bound _ = []"

text \<open>
  The column list as the specification words it: a mapping of alias to source, each
  entry rendered \<^verbatim>\<open>source AS alias\<close>.
\<close>

definition spec_select_columns :: "(string \<times> string) list \<Rightarrow> string" where
  "spec_select_columns m = join '','' (map (\<lambda>(alias, source). source @ '' AS '' @ alias) m)"

text \<open>
  The statement text as the specification words it for an insert, with a blank between
  the table name and the column list.
\<close>

definition spec_insert_text :: "string \<Rightarrow> string list \<Rightarrow> string" where
  "spec_insert_text t cols =
     ''INSERT INTO '' @ t @ '' ('' @ join '','' cols @ '') VALUES ('' @
     join '','' (map (\<lambda>_. ''?'') cols) @ '')''"

section \<open>Properties of the builder\<close>

lemmas mutator_defs = table_def select_def update_def delete_def order_def truncate_def
  andWhere_def insert_into_def getExequery_def

lemma join_suffix_into_map:
  "xs \<noteq> [] \<Longrightarrow> join (a @ b) xs @ a = join b (map (\<lambda>k. k @ a) xs)"
  by (induction "a @ b" xs rule: join.induct) simp_all

lemma map_const_replicate: "map (\<lambda>_. x) xs = replicate (length xs) x"
  by (induction xs) simp_all

lemma where_step_appending:
  "spec_appending w \<Longrightarrow>
     where_step w q = q\<lparr>q_where := q_where q @ [spec_fragment w],
                        q_whereData := q_whereData q @ spec_bound w\<rparr>"
  by (induction w rule: spec_appending.induct) simp_all

lemma andWhere_active:
  "query s = Some q \<Longrightarrow> andWhere w s = (Inr (), s\<lparr>query := Some (where_step w q)\<rparr>)"
  by (simp add: andWhere_def)

lemma wheres_appending:
  "query s = Some q \<Longrightarrow> list_all spec_appending ws \<Longrightarrow>
     wheres ws s =
       (Inr (), s\<lparr>query := Some (q\<lparr>q_where := q_where q @ map spec_fragment ws,
                                     q_whereData := q_whereData q @ concat (map spec_bound ws)\<rparr>)\<rparr>)"
proof (induction ws arbitrary: s q)
  case Nil
  then show ?case by simp
next
  case (Cons w ws)
  let ?q1 = "q\<lparr>q_where := q_where q @ [spec_fragment w], q_whereData := q_whereData q @ spec_bound w\<rparr>"
  let ?s1 = "s\<lparr>query := Some ?q1\<rparr>"
  from Cons.prems have step: "andWhere w s = (Inr (), ?s1)"
    by (simp add: andWhere_active where_step_appending)
  have "query ?s1 = Some ?q1" by simp
  moreover from Cons.prems have "list_all spec_appending ws" by simp
  ultimately have "wheres ws ?s1 =
      (Inr (), ?s1\<lparr>query := Some (?q1\<lparr>q_where := q_where ?q1 @ map spec_fragment ws,
                                         q_whereData := q_whereData ?q1 @ concat (map spec_bound ws)\<rparr>)\<rparr>)"
    by (rule Cons.IH)
  with step show ?case by (simp add: chain_def)
qed

text \<open>
  Where the descriptor can go: \<^verbatim>\<open>getExequery\<close> leaves the builder as it is, and
  \<^verbatim>\<open>execute\<close> and \<^verbatim>\<open>loop\<close> either clear the descriptor or leave the builder as it is.
\<close>

lemma getExequery_keeps_builder: "snd (getExequery s) = s"
  by (simp add: getExequery_def split: option.splits)

lemma execute_clears_or_keeps:
  "query (snd (execute h a s)) = None \<or> snd (execute h a s) = s"
  by (auto simp: execute_def getExequery_def db_call_def debug_def split: option.splits sum.splits)

lemma loop_clears_or_keeps:
  "query (snd (loop h a s)) = None \<or> snd (loop h a s) = s"
proof (cases "u_isFunction (if a = [] then JUndefined else last a)")
  case False
  then show ?thesis by (simp add: loop_def Let_def)
next
  case True
  obtain r s' where ex: "execute h (butlast a) s = (r, s')"
    by (cases "execute h (butlast a) s")
  have opts: "query s' = None \<or> s' = s"
    using execute_clears_or_keeps [of h "butlast a" s] ex by simp
  show ?thesis
  proof (cases r)
    case (Inl e)
    with True ex opts show ?thesis by (simp add: loop_def Let_def)
  next
    case (Inr row)
    have "query s' = None"
      using ex Inr
      by (auto simp: execute_def getExequery_def db_call_def debug_def
               split: option.splits sum.splits if_splits)
    with True ex Inr show ?thesis by (simp add: loop_def Let_def)
  qed
qed

lemma where_step_keeps_columns:
  "q_method (where_step wargs q) = q_method q \<and>
   q_update (where_step wargs q) = q_update q \<and>
   q_insert (where_step wargs q) = q_insert q"
  by (cases "(wargs, q)" rule: where_step.cases) (auto split: jsval.splits)

lemma reachable_compilable:
  "reachable h s \<Longrightarrow> query s = Some q \<Longrightarrow> compilable q"
proof (induction arbitrary: q rule: reachable.induct)
  case r_new
  then show ?case by (simp add: new_SQLite_def)
next
  case (r_table s name)
  then show ?case by (auto simp: table_def compilable_def)
next
  case (r_select s sargs)
  then show ?case by (auto simp: select_def compilable_def split: option.splits)
next
  case (r_update s obj)
  then show ?case by (auto simp: update_def compilable_def split: option.splits)
next
  case (r_delete s)
  then show ?case by (auto simp: delete_def compilable_def split: option.splits)
next
  case (r_order s k dir)
  then show ?case by (auto simp: order_def compilable_def split: option.splits)
next
  case (r_truncate s)
  then show ?case by (auto simp: truncate_def compilable_def split: option.splits)
next
  case (r_where s wargs)
  then show ?case
    by (auto simp: andWhere_def compilable_def where_step_keeps_columns split: option.splits)
next
  case (r_insert s obj)
  then show ?case by (auto simp: insert_into_def compilable_def split: option.splits)
next
  case (r_getExequery s)
  then show ?case by (simp add: getExequery_keeps_builder)
next
  case (r_execute s arguments)
  with execute_clears_or_keeps [of h arguments s] show ?case by auto
next
  case (r_loop s arguments)
  with loop_clears_or_keeps [of h arguments s] show ?case by auto
qed

lemma compilable_exequery: "compilable q \<Longrightarrow> \<exists>c. exequery q = Inr c"
  by (cases "q_method q") (auto simp: compilable_def exequery_def)

lemma execute_active_resets:
  assumes "query s = Some q" and "compilable q"
  shows "query (snd (execute h a s)) = None"
proof -
  from assms(2) obtain c where "exequery q = Inr c" using compilable_exequery by blast
  with assms(1) show ?thesis
    by (simp add: execute_def getExequery_def db_call_def debug_def)
qed

subsection \<open>A fresh chain\<close>

text \<open>
  C10. For every table name \<open>t\<close> and whatever the builder held before, \<^verbatim>\<open>table(t)\<close>
  leaves a descriptor with method \<^verbatim>\<open>select\<close>, the table \<open>t\<close>, an empty \<^verbatim>\<open>where\<close> list and
  \<^verbatim>\<open>select\<close>, \<^verbatim>\<open>order\<close> at \<^verbatim>\<open>null\<close>; compiling it at once gives the one-element array
  \<^verbatim>\<open>['SELECT * FROM t']\<close>, with no bound value, though \<^verbatim>\<open>select()\<close> was never called.
\<close>

theorem fresh_chain_selects_all:
  "query (snd (table t s)) =
     Some \<lparr>q_method = Select, q_table = t, q_where = [], q_whereData = [],
           q_select = None, q_update = None, q_updateData = [], q_order = None,
           q_insert = None, q_insertData = []\<rparr>
   \<and> fst (table t s) = Inr ()
   \<and> fst (chain (table t s) getExequery) = Inr [JStr (''SELECT * FROM '' @ t)]"
  by (simp add: table_def chain_def getExequery_def exequery_def whereClause_def)

subsection \<open>Update and insert statements\<close>

text \<open>
  C2. For every table \<open>t\<close>, mapping \<open>m\<close>, column \<open>c\<close> and value \<open>v\<close>, the chain
  \<^verbatim>\<open>table(t).update(m).where(c, v)\<close> compiles to the text
  \<^verbatim>\<open>UPDATE t SET k1 = ?, k2 = ?, ... WHERE c = ?\<close>, one \<^verbatim>\<open>k = ?\<close> per key of \<open>m\<close> in key order,
  followed by the values of \<open>m\<close> in the same order and then \<open>v\<close>: the update values come
  before the where value. (With no key at all the \<^verbatim>\<open>SET\<close> part is a lone \<^verbatim>\<open> = ?\<close>, the
  column name being empty.)
\<close>

theorem update_then_where:
  "fst (chain (chain (chain (table t s) (update m)) (andWhere (WhereTwo c v))) getExequery) =
     Inr (JStr (''UPDATE '' @ t @ '' SET '' @
                (if m = [] then '' = ?''
                 else join '', '' (map (\<lambda>k. k @ '' = ?'') (map fst m))) @
                '' WHERE '' @ c @ '' = ?'')
          # map snd m @ [v])"
proof -
  have set_clause: "join '' = ?, '' (map fst m) @ '' = ?'' =
      (if m = [] then '' = ?'' else join '', '' (map (\<lambda>k. k @ '' = ?'') (map fst m)))"
    using join_suffix_into_map [of "map fst m" "'' = ?''" "'', ''"] by simp
  show ?thesis
    using set_clause
    by (simp add: mutator_defs chain_def exequery_def whereClause_def)
qed

text \<open>The instance of the specification: \<^verbatim>\<open>update({a:1}).where('id',5)\<close> on the table \<^verbatim>\<open>t\<close>.\<close>

theorem update_then_where_witness:
  "fst (chain (chain (chain (table ''t'' new_SQLite) (update [(''a'', JNum 1)]))
                     (andWhere (WhereTwo ''id'' (JNum 5)))) getExequery) =
     Inr [JStr ''UPDATE t SET a = ? WHERE id = ?'', JNum 1, JNum 5]"
  using update_then_where [of "''t''" new_SQLite "[(''a'', JNum 1)]" "''id''" "JNum 5"]
  by simp

text \<open>
  C3, as the specification states it, asks for a blank between the table name and the
  column list. The source concatenates \<^verbatim>\<open>'INSERT INTO ' + table + '('\<close>, so the text of
  \<^verbatim>\<open>insert({a:1,b:2})\<close> on the table \<^verbatim>\<open>t\<close> is not \<^verbatim>\<open>INSERT INTO t (a,b) VALUES (?,?)\<close>.
\<close>

theorem insert_blank_counterexample:
  "fst (chain (chain (table ''t'' new_SQLite) (insert_into [(''a'', JNum 1), (''b'', JNum 2)]))
              getExequery) \<noteq>
     Inr [JStr (spec_insert_text ''t'' [''a'', ''b'']), JNum 1, JNum 2]
   \<and> spec_insert_text ''t'' [''a'', ''b''] = ''INSERT INTO t (a,b) VALUES (?,?)''"
  by (simp add: mutator_defs chain_def exequery_def spec_insert_text_def)

text \<open>
  C3, amended. For every table \<open>t\<close> and mapping \<open>m\<close> (a non-empty one in particular),
  \<^verbatim>\<open>table(t).insert(m)\<close> compiles to the text \<^verbatim>\<open>INSERT INTO t(k1,k2,...) VALUES (?,?,...)\<close>,
  with no blank before the opening parenthesis, the keys of \<open>m\<close> in key order and as
  many placeholders as keys, followed by the values of \<open>m\<close> in the same order.
\<close>

theorem insert_compiles:
  "fst (chain (chain (table t s) (insert_into m)) getExequery) =
     Inr (JStr (''INSERT INTO '' @ t @ ''('' @ join '','' (map fst m) @ '') VALUES ('' @
                join '','' (replicate (length m) ''?'') @ '')'')
          # map snd m)"
  by (simp add: mutator_defs chain_def exequery_def map_const_replicate)

text \<open>The instance of the specification: \<^verbatim>\<open>insert({a:1,b:2})\<close> on the table \<^verbatim>\<open>t\<close>.\<close>

theorem insert_compiles_witness:
  "fst (chain (chain (table ''t'' new_SQLite) (insert_into [(''a'', JNum 1), (''b'', JNum 2)]))
              getExequery) =
     Inr [JStr ''INSERT INTO t(a,b) VALUES (?,?)'', JNum 1, JNum 2]"
  using insert_compiles [of "''t''" new_SQLite "[(''a'', JNum 1), (''b'', JNum 2)]"]
  by (simp add: numeral_2_eq_2)

subsection \<open>Filters\<close>

text \<open>
  C1. On an active chain, \<^verbatim>\<open>where(m)\<close> with a mapping \<open>m\<close> (non-empty or not) replaces the
  \<^verbatim>\<open>where\<close> list, whatever earlier calls had put there, by one fragment \<^verbatim>\<open>key = ?\<close> per
  key of \<open>m\<close>, and \<^verbatim>\<open>whereData\<close> by the values of \<open>m\<close> in the same key order: both lists
  have as many entries as \<open>m\<close> has keys, and the \<open>i\<close>-th bound value belongs to the
  \<open>i\<close>-th placeholder.
\<close>

theorem where_mapping_replaces:
  assumes "query s = Some q"
  shows "andWhere (WhereOne (JObj m)) s =
           (Inr (), s\<lparr>query := Some (q\<lparr>q_where := map (\<lambda>k. k @ '' = ?'') (map fst m),
                                         q_whereData := map snd m\<rparr>)\<rparr>)
       \<and> (case query (snd (andWhere (WhereOne (JObj m)) s)) of
            None \<Rightarrow> False
          | Some q' \<Rightarrow>
              length (q_where q') = length m \<and> length (q_whereData q') = length m \<and>
              (\<forall>i < length m. q_where q' ! i = fst (m ! i) @ '' = ?'' \<and>
                               q_whereData q' ! i = snd (m ! i)))"
  using assms by (simp add: andWhere_def)

text \<open>
  \<^verbatim>\<open>table('t').where('a', 1)\<close> holds one filter; \<^verbatim>\<open>.where({x: 2, y: 'z'})\<close> after it leaves
  the two filters of the mapping only.
\<close>

theorem where_mapping_replaces_witness:
  "query (snd (andWhere (WhereTwo ''a'' (JNum 1)) (snd (table ''t'' new_SQLite)))) =
     Some \<lparr>q_method = Select, q_table = ''t'', q_where = [''a = ?''], q_whereData = [JNum 1],
           q_select = None, q_update = None, q_updateData = [], q_order = None,
           q_insert = None, q_insertData = []\<rparr>
   \<and> query (snd (andWhere (WhereOne (JObj [(''x'', JNum 2), (''y'', JStr ''z'')]))
                 (snd (andWhere (WhereTwo ''a'' (JNum 1)) (snd (table ''t'' new_SQLite)))))) =
     Some \<lparr>q_method = Select, q_table = ''t'', q_where = [''x = ?'', ''y = ?''],
           q_whereData = [JNum 2, JStr ''z''],
           q_select = None, q_update = None, q_updateData = [], q_order = None,
           q_insert = None, q_insertData = []\<rparr>"
proof -
  let ?s = "snd (andWhere (WhereTwo ''a'' (JNum 1)) (snd (table ''t'' new_SQLite)))"
  let ?q = "\<lparr>q_method = Select, q_table = ''t'', q_where = [''a = ?''], q_whereData = [JNum 1],
           q_select = None, q_update = None, q_updateData = [], q_order = None,
           q_insert = None, q_insertData = []\<rparr>"
  have h: "query ?s = Some ?q"
    by (simp add: andWhere_def table_def)
  from where_mapping_replaces [OF h, of "[(''x'', JNum 2), (''y'', JStr ''z'')]"] h
  show ?thesis by simp
qed

text \<open>
  C4. On an active chain, a \<^verbatim>\<open>where\<close> call with one raw string, with \<open>(column, value)\<close>
  or with \<open>(column, operator, value)\<close> appends its one fragment to the \<^verbatim>\<open>where\<close> list
  and keeps what was there; a run of such calls appends the fragments, and the bound
  values, in call order. When the list is not empty the \<^verbatim>\<open>WHERE\<close> clause is
  \<^verbatim>\<open>' WHERE '\<close> followed by the fragments joined by \<^verbatim>\<open>' AND '\<close>, and that is what the
  compiled select and delete statements of a chain carry (an update statement too, see
  C2; insert and truncate statements have no \<^verbatim>\<open>WHERE\<close> clause).
\<close>

theorem where_positional_accumulates:
  assumes "query s = Some q" and "list_all spec_appending ws"
  shows "(\<forall>w. spec_appending w \<longrightarrow>
            andWhere w s =
              (Inr (), s\<lparr>query := Some (q\<lparr>q_where := q_where q @ [spec_fragment w],
                                            q_whereData := q_whereData q @ spec_bound w\<rparr>)\<rparr>))
       \<and> wheres ws s =
           (Inr (), s\<lparr>query := Some (q\<lparr>q_where := q_where q @ map spec_fragment ws,
                                         q_whereData := q_whereData q @ concat (map spec_bound ws)\<rparr>)\<rparr>)
       \<and> (q_where q @ map spec_fragment ws \<noteq> [] \<longrightarrow>
            whereClause (q\<lparr>q_where := q_where q @ map spec_fragment ws,
                           q_whereData := q_whereData q @ concat (map spec_bound ws)\<rparr>) =
              '' WHERE '' @ join '' AND '' (q_where q @ map spec_fragment ws))
       \<and> (ws \<noteq> [] \<longrightarrow>
            fst (chain (chain (table t s) (wheres ws)) getExequery) =
              Inr (JStr (''SELECT * FROM '' @ t @ '' WHERE '' @ join '' AND '' (map spec_fragment ws))
                   # concat (map spec_bound ws)))
       \<and> (ws \<noteq> [] \<longrightarrow>
            fst (chain (chain (chain (table t s) delete) (wheres ws)) getExequery) =
              Inr (JStr (''DELETE FROM '' @ t @ '' WHERE '' @ join '' AND '' (map spec_fragment ws))
                   # concat (map spec_bound ws)))"
proof (intro conjI allI impI)
  fix w assume "spec_appending w"
  with assms(1) show "andWhere w s =
      (Inr (), s\<lparr>query := Some (q\<lparr>q_where := q_where q @ [spec_fragment w],
                                    q_whereData := q_whereData q @ spec_bound w\<rparr>)\<rparr>)"
    by (simp add: andWhere_active where_step_appending)
next
  from assms show "wheres ws s =
      (Inr (), s\<lparr>query := Some (q\<lparr>q_where := q_where q @ map spec_fragment ws,
                                    q_whereData := q_whereData q @ concat (map spec_bound ws)\<rparr>)\<rparr>)"
    by (rule wheres_appending)
next
  assume "q_where q @ map spec_fragment ws \<noteq> []"
  then show "whereClause (q\<lparr>q_where := q_where q @ map spec_fragment ws,
                           q_whereData := q_whereData q @ concat (map spec_bound ws)\<rparr>) =
              '' WHERE '' @ join '' AND '' (q_where q @ map spec_fragment ws)"
    by (simp add: whereClause_def)
next
  assume ne: "ws \<noteq> []"
  let ?s1 = "snd (table t s)"
  have "wheres ws ?s1 = (Inr (), ?s1\<lparr>query := Some
          (\<lparr>q_method = Select, q_table = t, q_where = [] @ map spec_fragment ws,
            q_whereData = [] @ concat (map spec_bound ws),
            q_select = None, q_update = None, q_updateData = [], q_order = None,
            q_insert = None, q_insertData = []\<rparr>)\<rparr>)"
    using wheres_appending [OF _ assms(2), of ?s1] by (simp add: table_def)
  with ne show "fst (chain (chain (table t s) (wheres ws)) getExequery) =
              Inr (JStr (''SELECT * FROM '' @ t @ '' WHERE '' @ join '' AND '' (map spec_fragment ws))
                   # concat (map spec_bound ws))"
    by (simp add: chain_def table_def getExequery_def exequery_def whereClause_def)
next
  assume ne: "ws \<noteq> []"
  let ?s1 = "snd (chain (table t s) delete)"
  have "wheres ws ?s1 = (Inr (), ?s1\<lparr>query := Some
          (\<lparr>q_method = Delete, q_table = t, q_where = [] @ map spec_fragment ws,
            q_whereData = [] @ concat (map spec_bound ws),
            q_select = None, q_update = None, q_updateData = [], q_order = None,
            q_insert = None, q_insertData = []\<rparr>)\<rparr>)"
    using wheres_appending [OF _ assms(2), of ?s1] by (simp add: table_def delete_def chain_def)
  with ne show "fst (chain (chain (chain (table t s) delete) (wheres ws)) getExequery) =
              Inr (JStr (''DELETE FROM '' @ t @ '' WHERE '' @ join '' AND '' (map spec_fragment ws))
                   # concat (map spec_bound ws))"
    by (simp add: chain_def table_def delete_def getExequery_def exequery_def whereClause_def)
qed

text \<open>\<^verbatim>\<open>.where('a', 1).where('b IS NULL').where('c', 'LIKE', 'x%')\<close> on a chain of \<^verbatim>\<open>t\<close>.\<close>

theorem where_positional_accumulates_witness:
  "query (snd (table ''t'' new_SQLite)) =
     Some \<lparr>q_method = Select, q_table = ''t'', q_where = [], q_whereData = [],
           q_select = None, q_update = None, q_updateData = [], q_order = None,
           q_insert = None, q_insertData = []\<rparr>
   \<and> list_all spec_appending
        [WhereTwo ''a'' (JNum 1), WhereOne (JStr ''b IS NULL''), WhereThree ''c'' ''LIKE'' (JStr ''x%'')]
   \<and> fst (chain (chain (table ''t'' (snd (table ''t'' new_SQLite)))
            (wheres [WhereTwo ''a'' (JNum 1), WhereOne (JStr ''b IS NULL''),
                     WhereThree ''c'' ''LIKE'' (JStr ''x%'')])) getExequery) =
       Inr [JStr ''SELECT * FROM t WHERE a = ? AND b IS NULL AND c LIKE ?'', JNum 1, JStr ''x%'']"
proof -
  let ?q = "\<lparr>q_method = Select, q_table = ''t'', q_where = [], q_whereData = [],
           q_select = None, q_update = None, q_updateData = [], q_order = None,
           q_insert = None, q_insertData = []\<rparr>"
  let ?ws = "[WhereTwo ''a'' (JNum 1), WhereOne (JStr ''b IS NULL''),
              WhereThree ''c'' ''LIKE'' (JStr ''x%'')]"
  have h1: "query (snd (table ''t'' new_SQLite)) = Some ?q" by (simp add: table_def)
  have h2: "list_all spec_appending ?ws" by simp
  from where_positional_accumulates [OF h1 h2, of "''t''"] h1 h2
  show ?thesis by simp
qed

subsection \<open>Select statements\<close>

text \<open>
  C7, as the specification states it, reads the object given to \<^verbatim>\<open>select\<close> as a mapping
  of alias to source and renders each entry \<^verbatim>\<open>source AS alias\<close>. The source renders
  \<^verbatim>\<open>k + ' AS ' + v\<close> for the key \<open>k\<close> and the value \<open>v\<close>: \<^verbatim>\<open>select({"_id": "id"})\<close> compiles
  to \<^verbatim>\<open>SELECT _id AS id FROM t\<close>, not to \<^verbatim>\<open>SELECT id AS _id FROM t\<close>.
\<close>

theorem select_alias_counterexample:
  "fst (chain (chain (table ''t'' new_SQLite) (select (Aliases [(''_id'', ''id'')]))) getExequery) =
     Inr [JStr ''SELECT _id AS id FROM t'']
   \<and> fst (chain (chain (table ''t'' new_SQLite) (select (Aliases [(''_id'', ''id'')]))) getExequery) \<noteq>
     Inr [JStr (''SELECT '' @ spec_select_columns [(''_id'', ''id'')] @ '' FROM t'')]
   \<and> spec_select_columns [(''_id'', ''id'')] = ''id AS _id''"
  by (simp add: mutator_defs chain_def exequery_def whereClause_def spec_select_columns_def)

text \<open>
  C7, amended. On an active chain, after \<^verbatim>\<open>select(m)\<close> with an object \<open>m\<close> the compiled
  column list has one entry \<^verbatim>\<open>key AS value\<close> per property of \<open>m\<close>, in order and joined
  by commas: the key is the source column and the value its alias. After \<^verbatim>\<open>select()\<close>,
  which sets the select state to \<^verbatim>\<open>null\<close>, the column list is \<^verbatim>\<open>*\<close>. The rest of the
  statement is the same in both cases.
\<close>

theorem select_columns_render:
  assumes "query s = Some q"
  shows "fst (chain (select (Aliases m) s) getExequery) =
           Inr (JStr (''SELECT '' @ join '','' (map (\<lambda>(k, v). k @ '' AS '' @ v) m) @
                      '' FROM '' @ q_table q @ whereClause q @
                      (case q_order q of
                         None \<Rightarrow> []
                       | Some ob \<Rightarrow> '' ORDER BY '' @ key ob @ '' '' @ direction ob))
                # q_whereData q)
       \<and> fst (chain (select (Names []) s) getExequery) =
           Inr (JStr (''SELECT *'' @
                      '' FROM '' @ q_table q @ whereClause q @
                      (case q_order q of
                         None \<Rightarrow> []
                       | Some ob \<Rightarrow> '' ORDER BY '' @ key ob @ '' '' @ direction ob))
                # q_whereData q)"
  using assms
  by (simp add: select_def getExequery_def chain_def exequery_def whereClause_def)

theorem select_columns_render_witness:
  "query (snd (table ''t'' new_SQLite)) =
     Some \<lparr>q_method = Select, q_table = ''t'', q_where = [], q_whereData = [],
           q_select = None, q_update = None, q_updateData = [], q_order = None,
           q_insert = None, q_insertData = []\<rparr>
   \<and> fst (chain (select (Aliases [(''_id'', ''id''), (''name'', ''label'')])
                        (snd (table ''t'' new_SQLite))) getExequery) =
       Inr [JStr ''SELECT _id AS id,name AS label FROM t'']
   \<and> fst (chain (select (Names []) (snd (table ''t'' new_SQLite))) getExequery) =
       Inr [JStr ''SELECT * FROM t'']"
proof -
  let ?q = "\<lparr>q_method = Select, q_table = ''t'', q_where = [], q_whereData = [],
           q_select = None, q_update = None, q_updateData = [], q_order = None,
           q_insert = None, q_insertData = []\<rparr>"
  have h: "query (snd (table ''t'' new_SQLite)) = Some ?q" by (simp add: table_def)
  from select_columns_render [OF h, of "[(''_id'', ''id''), (''name'', ''label'')]"] h
  show ?thesis by (simp add: whereClause_def)
qed

text \<open>
  C8. For every table \<open>t\<close>, \<^verbatim>\<open>table(t).select().where({x:1}).order('y')\<close> compiles to
  \<^verbatim>\<open>SELECT * FROM t WHERE x = ? ORDER BY y ASC\<close> with the one bound value \<open>1\<close>; and
  \<^verbatim>\<open>order(k)\<close> with the direction left out stores the direction \<^verbatim>\<open>ASC\<close>, whatever the key.
\<close>

theorem select_where_order:
  "fst (chain (chain (chain (chain (table t s) (select (Names [])))
                            (andWhere (WhereOne (JObj [(''x'', JNum 1)]))))
                     (order ''y'' None))
              getExequery) =
     Inr [JStr (''SELECT * FROM '' @ t @ '' WHERE x = ? ORDER BY y ASC''), JNum 1]
   \<and> map_option q_order (query (snd (chain (table t s) (order k None)))) =
       Some (Some \<lparr>key = k, direction = ''ASC''\<rparr>)"
  by (simp add: mutator_defs chain_def exequery_def whereClause_def)

theorem select_where_order_witness:
  "fst (chain (chain (chain (chain (table ''t'' new_SQLite) (select (Names [])))
                            (andWhere (WhereOne (JObj [(''x'', JNum 1)]))))
                     (order ''y'' None))
              getExequery) =
     Inr [JStr ''SELECT * FROM t WHERE x = ? ORDER BY y ASC'', JNum 1]"
  using select_where_order [of "''t''" new_SQLite] by simp

subsection \<open>The life of a chain\<close>

text \<open>
  C6. On a builder with no active chain (\<^verbatim>\<open>this.query\<close> is \<^verbatim>\<open>null\<close>), each of \<^verbatim>\<open>select\<close>,
  \<^verbatim>\<open>update\<close>, \<^verbatim>\<open>delete\<close>, \<^verbatim>\<open>order\<close>, \<^verbatim>\<open>truncate\<close>, \<^verbatim>\<open>where\<close>, \<^verbatim>\<open>insert\<close> and \<^verbatim>\<open>getExequery\<close>
  throws the error that asks for \<^verbatim>\<open>.table()\<close>, and the builder is as it was, its
  descriptor still \<^verbatim>\<open>null\<close>.
\<close>

theorem mutators_need_a_chain:
  assumes "query s = None"
  shows "select sargs s = (Inl NoActiveChain, s)
       \<and> update obj s = (Inl NoActiveChain, s)
       \<and> delete s = (Inl NoActiveChain, s)
       \<and> order k dir s = (Inl NoActiveChain, s)
       \<and> truncate s = (Inl NoActiveChain, s)
       \<and> andWhere wargs s = (Inl NoActiveChain, s)
       \<and> insert_into obj s = (Inl NoActiveChain, s)
       \<and> getExequery s = (Inl NoActiveChain, s)"
  using assms by (simp add: mutator_defs)

theorem mutators_need_a_chain_witness:
  "query new_SQLite = None
   \<and> select (Names [''id'']) new_SQLite = (Inl NoActiveChain, new_SQLite)
   \<and> update [(''a'', JNum 1)] new_SQLite = (Inl NoActiveChain, new_SQLite)
   \<and> delete new_SQLite = (Inl NoActiveChain, new_SQLite)
   \<and> order ''y'' None new_SQLite = (Inl NoActiveChain, new_SQLite)
   \<and> truncate new_SQLite = (Inl NoActiveChain, new_SQLite)
   \<and> andWhere (WhereTwo ''id'' (JNum 2)) new_SQLite = (Inl NoActiveChain, new_SQLite)
   \<and> insert_into [(''a'', JNum 1)] new_SQLite = (Inl NoActiveChain, new_SQLite)
   \<and> getExequery new_SQLite = (Inl NoActiveChain, new_SQLite)"
proof -
  have h: "query new_SQLite = None" by (simp add: new_SQLite_def)
  from mutators_need_a_chain [OF h, of "Names [''id'']" "[(''a'', JNum 1)]" "''y''" None
        "WhereTwo ''id'' (JNum 2)"] h
  show ?thesis by simp
qed

text \<open>
  C5. On a builder that the methods produced and that has an active chain, \<^verbatim>\<open>execute\<close>
  leaves the descriptor \<^verbatim>\<open>null\<close>, whatever the database answers. After it each of
  \<^verbatim>\<open>select\<close>, \<^verbatim>\<open>where\<close>, \<^verbatim>\<open>update\<close>, \<^verbatim>\<open>insert\<close>, \<^verbatim>\<open>delete\<close>, \<^verbatim>\<open>truncate\<close>, \<^verbatim>\<open>order\<close> and
  \<^verbatim>\<open>getExequery\<close> throws the error that asks for \<^verbatim>\<open>.table()\<close> and changes nothing; after
  a new \<^verbatim>\<open>table(t)\<close> each of them succeeds again.
\<close>

theorem execute_resets_descriptor:
  assumes "reachable h s" and "query s \<noteq> None"
  shows "query (snd (execute h a s)) = None
       \<and> select sargs (snd (execute h a s)) = (Inl NoActiveChain, snd (execute h a s))
       \<and> andWhere wargs (snd (execute h a s)) = (Inl NoActiveChain, snd (execute h a s))
       \<and> update obj (snd (execute h a s)) = (Inl NoActiveChain, snd (execute h a s))
       \<and> insert_into obj (snd (execute h a s)) = (Inl NoActiveChain, snd (execute h a s))
       \<and> delete (snd (execute h a s)) = (Inl NoActiveChain, snd (execute h a s))
       \<and> truncate (snd (execute h a s)) = (Inl NoActiveChain, snd (execute h a s))
       \<and> order k dir (snd (execute h a s)) = (Inl NoActiveChain, snd (execute h a s))
       \<and> getExequery (snd (execute h a s)) = (Inl NoActiveChain, snd (execute h a s))
       \<and> fst (chain (table t (snd (execute h a s))) (select sargs)) = Inr ()
       \<and> fst (chain (table t (snd (execute h a s))) (andWhere wargs)) = Inr ()
       \<and> fst (chain (table t (snd (execute h a s))) (update obj)) = Inr ()
       \<and> fst (chain (table t (snd (execute h a s))) (insert_into obj)) = Inr ()
       \<and> fst (chain (table t (snd (execute h a s))) delete) = Inr ()
       \<and> fst (chain (table t (snd (execute h a s))) truncate) = Inr ()
       \<and> fst (chain (table t (snd (execute h a s))) (order k dir)) = Inr ()
       \<and> fst (chain (table t (snd (execute h a s))) getExequery) =
           Inr [JStr (''SELECT * FROM '' @ t)]"
proof -
  from assms(2) obtain q where q: "query s = Some q" by blast
  with assms(1) have "compilable q" by (rule reachable_compilable)
  with q have null: "query (snd (execute h a s)) = None" by (rule execute_active_resets)
  show ?thesis
    using null
    by (simp add: select_def andWhere_def update_def insert_into_def delete_def truncate_def
          order_def getExequery_def chain_def table_def exequery_def whereClause_def)
qed

text \<open>
  A chain on \<^verbatim>\<open>t\<close> executed against a database that answers with an empty cursor: one
  statement reaches the database, the descriptor is gone, \<^verbatim>\<open>delete()\<close> throws, and
  \<^verbatim>\<open>table('u').delete()\<close> works.
\<close>

theorem execute_resets_descriptor_witness:
  "reachable \<lparr>config_log = False, db_execute = (\<lambda>_ _. Inr \<lparr>fieldNames = [], rows = []\<rparr>)\<rparr>
             (snd (table ''t'' new_SQLite))
   \<and> query (snd (table ''t'' new_SQLite)) \<noteq> None
   \<and> snd (execute \<lparr>config_log = False, db_execute = (\<lambda>_ _. Inr \<lparr>fieldNames = [], rows = []\<rparr>)\<rparr>
                   [] (snd (table ''t'' new_SQLite))) =
       \<lparr>query = None, trace = [DbExecute [JStr ''SELECT * FROM t'']]\<rparr>
   \<and> delete \<lparr>query = None, trace = [DbExecute [JStr ''SELECT * FROM t'']]\<rparr> =
       (Inl NoActiveChain, \<lparr>query = None, trace = [DbExecute [JStr ''SELECT * FROM t'']]\<rparr>)
   \<and> fst (chain (table ''u'' \<lparr>query = None, trace = [DbExecute [JStr ''SELECT * FROM t'']]\<rparr>)
                 delete) = Inr ()"
proof -
  let ?h = "\<lparr>config_log = False, db_execute = (\<lambda>_ _. Inr \<lparr>fieldNames = [], rows = []\<rparr>)\<rparr>"
  let ?s = "snd (table ''t'' new_SQLite)"
  have r: "reachable ?h ?s" by (rule r_table) (rule r_new)
  have a: "query ?s \<noteq> None" by (simp add: table_def)
  have e: "snd (execute ?h [] ?s) = \<lparr>query = None, trace = [DbExecute [JStr ''SELECT * FROM t'']]\<rparr>"
    by (simp add: execute_def getExequery_def exequery_def whereClause_def table_def
          new_SQLite_def db_call_def debug_def)
  from execute_resets_descriptor [OF r a, of "[]" "Names []" WhereNone "[]" "[]" None "''u''"] r a e
  show ?thesis by simp
qed

subsection \<open>Row iteration\<close>

text \<open>
  C9. When \<^verbatim>\<open>loop\<close> is called with no argument or with a last argument that is not a
  function, it throws its invalid-argument error and the builder is exactly as before:
  the descriptor is unchanged and nothing was added to the trace, so neither
  \<^verbatim>\<open>execute\<close> nor the database handle was called.
\<close>

theorem loop_rejects_non_function:
  assumes "arguments = [] \<or> \<not> u_isFunction (last arguments)"
  shows "loop h arguments s = (Inl InvalidArgument, s)"
  using assms by (auto simp: loop_def Let_def)

theorem loop_rejects_non_function_witness:
  "([JStr ''SELECT 1'', JNum 3] = [] \<or> \<not> u_isFunction (last [JStr ''SELECT 1'', JNum 3]))
   \<and> loop \<lparr>config_log = True, db_execute = (\<lambda>_ _. Inr \<lparr>fieldNames = [], rows = []\<rparr>)\<rparr>
          [JStr ''SELECT 1'', JNum 3] (snd (table ''t'' new_SQLite)) =
       (Inl InvalidArgument, snd (table ''t'' new_SQLite))
   \<and> trace (snd (table ''t'' new_SQLite)) = []"
proof -
  have h: "[JStr ''SELECT 1'', JNum 3] = [] \<or> \<not> u_isFunction (last [JStr ''SELECT 1'', JNum 3])"
    by simp
  from loop_rejects_non_function [OF h] h
  show ?thesis by (simp add: table_def new_SQLite_def)
qed

end
